theory Spec2Isabelle
  imports Complex_Main "HOL-Library.AList"
begin

section \<open>Python strings\<close>

text \<open>
  A Python \<open>str\<close> is a sequence of Unicode code points; \<open>len\<close> counts code points.
  A string is therefore a list of natural numbers.  The character predicates below are
  exact on the ASCII range; Python's Unicode tables for digits, letters and case
  mappings beyond ASCII are not reproduced (a code point above 127 is a caseless
  character that is neither a digit nor a word character), while the whitespace set is
  Python's \<open>str.isspace\<close> set.
\<close>

type_synonym uchar = nat
type_synonym ustring = "nat list"

definition ustr :: "string \<Rightarrow> ustring" where
  "ustr s = map of_char s"

definition is_digit :: "uchar \<Rightarrow> bool" where
  "is_digit c = (48 \<le> c \<and> c \<le> 57)"

definition is_upper :: "uchar \<Rightarrow> bool" where
  "is_upper c = (65 \<le> c \<and> c \<le> 90)"

definition is_lower :: "uchar \<Rightarrow> bool" where
  "is_lower c = (97 \<le> c \<and> c \<le> 122)"

definition is_alpha :: "uchar \<Rightarrow> bool" where
  "is_alpha c = (is_upper c \<or> is_lower c)"

definition is_word :: "uchar \<Rightarrow> bool" where
  "is_word c = (is_digit c \<or> is_alpha c \<or> c = 95)"

definition is_space :: "uchar \<Rightarrow> bool" where
  "is_space c = ((9 \<le> c \<and> c \<le> 13) \<or> (28 \<le> c \<and> c \<le> 32) \<or> c = 133 \<or> c = 160
      \<or> c = 5760 \<or> (8192 \<le> c \<and> c \<le> 8202) \<or> c = 8232 \<or> c = 8233 \<or> c = 8239
      \<or> c = 8287 \<or> c = 12288)"

definition to_lower :: "uchar \<Rightarrow> uchar" where
  "to_lower c = (if is_upper c then c + 32 else c)"

definition to_upper :: "uchar \<Rightarrow> uchar" where
  "to_upper c = (if is_lower c then c - 32 else c)"

definition lower :: "ustring \<Rightarrow> ustring" where
  "lower s = map to_lower s"

definition upper :: "ustring \<Rightarrow> ustring" where
  "upper s = map to_upper s"

text \<open>\<open>s.strip()\<close>, \<open>s.startswith(p)\<close>, \<open>s.endswith(p)\<close>, \<open>p in s\<close>.\<close>

definition lstrip :: "ustring \<Rightarrow> ustring" where
  "lstrip s = dropWhile is_space s"

definition rstrip :: "ustring \<Rightarrow> ustring" where
  "rstrip s = rev (dropWhile is_space (rev s))"

definition strip :: "ustring \<Rightarrow> ustring" where
  "strip s = rstrip (lstrip s)"

fun startswith :: "ustring \<Rightarrow> ustring \<Rightarrow> bool" where
  "startswith s [] = True"
| "startswith [] (p # ps) = False"
| "startswith (c # cs) (p # ps) = (c = p \<and> startswith cs ps)"

definition endswith :: "ustring \<Rightarrow> ustring \<Rightarrow> bool" where
  "endswith s p = startswith (rev s) (rev p)"

fun contains :: "ustring \<Rightarrow> ustring \<Rightarrow> bool" where
  "contains [] p = (p = [])"
| "contains (c # cs) p = (startswith (c # cs) p \<or> contains cs p)"

text \<open>\<open>s.split()\<close> with no argument: the maximal runs of non-whitespace.\<close>

fun split_ws_acc :: "ustring \<Rightarrow> ustring \<Rightarrow> ustring list" where
  "split_ws_acc w [] = (if w = [] then [] else [rev w])"
| "split_ws_acc w (c # cs) =
     (if is_space c then (if w = [] then split_ws_acc [] cs else rev w # split_ws_acc [] cs)
      else split_ws_acc (c # w) cs)"

definition split_ws :: "ustring \<Rightarrow> ustring list" where
  "split_ws s = split_ws_acc [] s"

text \<open>\<open>s.replace(old, new)\<close> for a one-character \<open>old\<close>.\<close>

definition replace_char :: "uchar \<Rightarrow> ustring \<Rightarrow> ustring \<Rightarrow> ustring" where
  "replace_char old new s = concat (map (\<lambda>c. if c = old then new else [c]) s)"

section \<open>Regular expressions as the \<open>re\<close> module matches them\<close>

text \<open>
  The patterns of the repository use character classes, greedy repetition of a single
  class, concatenation, alternation, capturing groups and the assertions \<open>^\<close>,
  \<open>$\<close> and \<open>\b\<close>.  \<open>rmatch\<close> lists, for a position in the subject, every way
  the pattern can match there, in the order in which a backtracking matcher tries them
  (greedy repetition first tries the longest run); \<open>re.search\<close> takes the first
  alternative at the leftmost position that has one.  A position is the text to its
  left (reversed), the text to its right, and the groups captured so far.
\<close>

datatype atom = Ch uchar | Rg uchar uchar | CatD | CatS | CatW

datatype cls = One atom | Dot | In "atom list" | NotIn "atom list"

fun atom_raw :: "atom \<Rightarrow> uchar \<Rightarrow> bool" where
  "atom_raw (Ch l) c = (c = l)"
| "atom_raw (Rg a b) c = (a \<le> c \<and> c \<le> b)"
| "atom_raw CatD c = is_digit c"
| "atom_raw CatS c = is_space c"
| "atom_raw CatW c = is_word c"

text \<open>With \<open>re.IGNORECASE\<close> a literal or a range also matches the other case.\<close>

definition atom_match :: "bool \<Rightarrow> atom \<Rightarrow> uchar \<Rightarrow> bool" where
  "atom_match ic a c =
     (atom_raw a c \<or> (ic \<and> (atom_raw a (to_lower c) \<or> atom_raw a (to_upper c))))"

fun cls_match :: "bool \<Rightarrow> cls \<Rightarrow> uchar \<Rightarrow> bool" where
  "cls_match ic (One a) c = atom_match ic a c"
| "cls_match ic Dot c = (c \<noteq> 10)"
| "cls_match ic (In as) c = list_ex (\<lambda>a. atom_match ic a c) as"
| "cls_match ic (NotIn as) c = (\<not> list_ex (\<lambda>a. atom_match ic a c) as)"

datatype rx =
    RChar cls
  | RRep cls nat "nat option"
  | RSeq rx rx
  | RAlt rx rx
  | RGrp rx
  | REps
  | RBol
  | REol
  | RWordB

type_synonym mstate = "ustring \<times> ustring \<times> ustring list"

definition at_word_boundary :: "ustring \<Rightarrow> ustring \<Rightarrow> bool" where
  "at_word_boundary l r =
     ((case l of [] \<Rightarrow> False | c # _ \<Rightarrow> is_word c) \<noteq> (case r of [] \<Rightarrow> False | c # _ \<Rightarrow> is_word c))"

fun rmatch :: "bool \<Rightarrow> rx \<Rightarrow> mstate \<Rightarrow> mstate list" where
  "rmatch ic (RChar cl) (l, r, g) =
     (case r of [] \<Rightarrow> [] | c # r' \<Rightarrow> if cls_match ic cl c then [(c # l, r', g)] else [])"
| "rmatch ic (RRep cl lo hi) (l, r, g) =
     (let k = length (takeWhile (cls_match ic cl) r);
          m = (case hi of None \<Rightarrow> k | Some h \<Rightarrow> min h k)
      in map (\<lambda>n. (rev (take n r) @ l, drop n r, g)) (rev [lo..<Suc m]))"
| "rmatch ic (RSeq a b) st = concat (map (rmatch ic b) (rmatch ic a st))"
| "rmatch ic (RAlt a b) st = rmatch ic a st @ rmatch ic b st"
| "rmatch ic (RGrp a) (l, r, g) =
     map (\<lambda>(l', r', g'). (l', r', g' @ [take (length r - length r') r])) (rmatch ic a (l, r, g))"
| "rmatch ic REps st = [st]"
| "rmatch ic RBol (l, r, g) = (if l = [] then [(l, r, g)] else [])"
| "rmatch ic REol (l, r, g) = (if r = [] \<or> r = [10] then [(l, r, g)] else [])"
| "rmatch ic RWordB (l, r, g) = (if at_word_boundary l r then [(l, r, g)] else [])"

text \<open>
  \<open>re.search(p, s)\<close>: the first alternative at the leftmost position; the result is the
  position where the match ends together with the captured groups (\<open>match.groups()\<close>).
\<close>

fun search_from :: "bool \<Rightarrow> rx \<Rightarrow> ustring \<Rightarrow> ustring \<Rightarrow> mstate option" where
  "search_from ic p l [] = (case rmatch ic p (l, [], []) of [] \<Rightarrow> None | m # _ \<Rightarrow> Some m)"
| "search_from ic p l (c # r) =
     (case rmatch ic p (l, c # r, []) of [] \<Rightarrow> search_from ic p (c # l) r | m # _ \<Rightarrow> Some m)"

definition re_search :: "bool \<Rightarrow> rx \<Rightarrow> ustring \<Rightarrow> mstate option" where
  "re_search ic p s = search_from ic p [] s"

definition re_found :: "bool \<Rightarrow> rx \<Rightarrow> ustring \<Rightarrow> bool" where
  "re_found ic p s = (re_search ic p s \<noteq> None)"

definition groups :: "mstate \<Rightarrow> ustring list" where
  "groups m = snd (snd m)"

text \<open>
  \<open>re.sub(p, repl, s)\<close> for a pattern that cannot match the empty string (every
  pattern substituted in the repository is of this kind): scanning from the left, a match
  is replaced and the scan resumes behind it; \<open>skip\<close> counts the characters of the
  current match that are still to be passed over.
\<close>

fun sub_from :: "bool \<Rightarrow> rx \<Rightarrow> ustring \<Rightarrow> nat \<Rightarrow> ustring \<Rightarrow> ustring \<Rightarrow> ustring" where
  "sub_from ic p repl skip l [] = []"
| "sub_from ic p repl (Suc k) l (c # r) = sub_from ic p repl k (c # l) r"
| "sub_from ic p repl 0 l (c # r) =
     (case rmatch ic p (l, c # r, []) of
        [] \<Rightarrow> c # sub_from ic p repl 0 (c # l) r
      | (l', r', g) # _ \<Rightarrow>
          (if length r' < length (c # r)
           then repl @ sub_from ic p repl (length r - length r') (c # l) r
           else c # sub_from ic p repl 0 (c # l) r))"

definition re_sub :: "bool \<Rightarrow> rx \<Rightarrow> ustring \<Rightarrow> ustring \<Rightarrow> ustring" where
  "re_sub ic p repl s = sub_from ic p repl 0 [] s"

text \<open>A literal string as a pattern (what \<open>re.escape\<close> produces).\<close>

fun lits :: "ustring \<Rightarrow> rx" where
  "lits [] = REps"
| "lits (c # cs) = RSeq (RChar (One (Ch c))) (lits cs)"

fun seqs :: "rx list \<Rightarrow> rx" where
  "seqs [] = REps"
| "seqs [a] = a"
| "seqs (a # b # cs) = RSeq a (seqs (b # cs))"

section \<open>Detectors of the classification engine\<close>

subsection \<open>modules/config.py\<close>


subsection \<open>modules/jav\_detector.py\<close>

text \<open>Pieces shared by the patterns: \<open>[A-Z0-9]{2,6}\<close>, \<open>[-_]\<close>, \<open>\d{3,5}\<close>, \<open>\d{4,7}\<close>.\<close>

definition rx_prefix :: rx where
  "rx_prefix = RRep (In [Rg 65 90, Rg 48 57]) 2 (Some 6)"

definition rx_sep :: rx where
  "rx_sep = RChar (In [Ch 45, Ch 95])"



definition rx_fc2_code :: rx where
  "rx_fc2_code = RRep (One CatD) 4 (Some 7)"









subsection \<open>modules/classifier.py: \<open>is_tv_show\<close> and \<open>is_spam_or_ad\<close>\<close>

definition rx_digits1 :: rx where
  "rx_digits1 = RRep (One CatD) 1 None"











section \<open>The stores: modules/smart\_cache.py and modules/ai\_classifier.py\<close>

text \<open>
  A Python \<open>float\<close> is a real number, an infinity or NaN; only comparison is used.
  \<open>py_ge a b\<close> is \<open>a >= b\<close>: false as soon as one side is NaN.
\<close>

datatype pyfloat = NaN | NegInf | Fin real | PosInf


text \<open>
  A dictionary is an association list in insertion order: \<open>d[k] = v\<close> is
  \<open>AList.update k v d\<close> (an existing key keeps its place, a new one goes last),
  \<open>d.get(k)\<close> is \<open>map_of d k\<close>.
\<close>

type_synonym ('k, 'v) dict = "('k \<times> 'v) list"

record cache_entry =
  ce_classification :: ustring
  ce_timestamp :: ustring
  ce_file_path :: "ustring option"
  ce_dest_path :: "ustring option"

record ai_entry =
  ae_classification :: ustring
  ae_confidence :: pyfloat
  ae_timestamp :: ustring

record hash_entry =
  he_folder_name :: ustring
  he_classification :: ustring
  he_timestamp :: ustring

text \<open>A correction read back from the file may lack the key \<open>applied\<close>.\<close>

record correction =
  co_original :: ustring
  co_correct :: ustring
  co_reason :: ustring
  co_timestamp :: ustring
  co_applied :: "bool option"
  co_correct_tmdb_id :: "ustring option"

record learning_pattern =
  lp_folder_name :: ustring
  lp_original_classification :: ustring
  lp_correct_classification :: ustring
  lp_jav_code :: "ustring option"
  lp_length :: nat
  lp_has_numbers :: bool
  lp_has_letters :: bool
  lp_has_special_chars :: bool

record ai_correction =
  ac_original :: ustring
  ac_correct :: ustring
  ac_timestamp :: ustring

record score_entry =
  sc_classification :: ustring
  sc_confidence :: pyfloat
  sc_reasoning :: ustring

text \<open>
  What the stores write and whom they ask, in order: the trace is not a field of the
  source but the record of its effects (each \<open>cache_classification\<close> rewrites the cache
  file, each remote question goes to the AI service).
\<close>

datatype event =
    Wrote_classification ustring ustring
  | Wrote_ai_classification ustring
  | Asked_ai ustring

text \<open>
  The two global instances \<open>smart_cache\<close> and \<open>ai_classifier\<close> as one state:
  the fields of \<open>cache_data\<close>, of \<open>manual_corrections\<close> and of \<open>learning_data\<close>,
  and whether there is an OpenAI client.
\<close>

record state =
  processed_files :: "(ustring, cache_entry) dict"
  ai_classifications :: "(ustring, ai_entry) dict"
  file_hashes :: "(ustring, hash_entry) dict"
  corrections :: "(ustring, correction) dict"
  learning_patterns :: "learning_pattern list"
  openai_client :: bool
  ai_jav_patterns :: "ustring list"
  ai_corrections :: "(ustring, ai_correction) dict"
  confidence_scores :: "(ustring, score_entry) dict"
  trace :: "event list"

text \<open>
  What the code reads from outside: the clock, the hash of a file's content
  (\<open>get_file_hash\<close>), the modification time of the learning file as text, the two remote
  questions of the AI collaborator with their parsed answers (\<open>None\<close>: the call raised),
  the environment variable \<open>AI_CONFIDENCE_THRESHOLD\<close> and Python's \<open>float()\<close> on
  a string (\<open>None\<close>: \<open>ValueError\<close>).
\<close>

record env =
  now :: ustring
  get_file_hash :: "ustring \<Rightarrow> ustring"
  learning_mtime :: ustring
  check_if_jav :: "ustring \<Rightarrow> (bool \<times> pyfloat \<times> ustring) option"
  classify_shows_or_movie :: "ustring \<Rightarrow> (ustring \<times> pyfloat \<times> ustring) option"
  threshold_var :: "ustring option"
  float_of :: "ustring \<Rightarrow> pyfloat option"


subsection \<open>SmartCache\<close>




text \<open>Python's truth value of an optional string: \<open>None\<close> and \<open>''\<close> are false.\<close>

fun truthy :: "ustring option \<Rightarrow> bool" where
  "truthy None = False"
| "truthy (Some v) = (v \<noteq> [])"





text \<open>\<open>_extract_jav_pattern\<close> (the same function in both classes).\<close>

definition rx_learn_code :: rx where
  "rx_learn_code = seqs [RGrp rx_prefix, rx_sep, RGrp (RRep (One CatD) 3 (Some 7))]"

definition rx_learn_fc2 :: rx where
  "rx_learn_fc2 = seqs [lits (ustr ''fc2''), RRep (In [Ch 45, Ch 95]) 0 (Some 1), lits (ustr ''ppv''),
                        RRep (In [Ch 45, Ch 95]) 0 (Some 1), RGrp rx_fc2_code]"

definition extract_jav_pattern :: "ustring \<Rightarrow> ustring option" where
  "extract_jav_pattern folder_name =
     (case re_search True rx_learn_code folder_name of
        Some m \<Rightarrow> Some (upper (groups m ! 0) @ [45] @ groups m ! 1)
      | None \<Rightarrow>
          (case re_search True rx_learn_fc2 folder_name of
             Some m \<Rightarrow> Some (ustr ''FC2-PPV-'' @ groups m ! 0)
           | None \<Rightarrow> None))"

definition extract_learning_pattern :: "ustring \<Rightarrow> ustring \<Rightarrow> ustring \<Rightarrow> learning_pattern" where
  "extract_learning_pattern folder_name original correct =
     \<lparr>lp_folder_name = folder_name, lp_original_classification = original,
      lp_correct_classification = correct,
      lp_jav_code = (if truthy (extract_jav_pattern folder_name) then extract_jav_pattern folder_name else None),
      lp_length = length folder_name,
      lp_has_numbers = list_ex is_digit folder_name,
      lp_has_letters = list_ex is_alpha folder_name,
      lp_has_special_chars = list_ex (\<lambda>c. c \<in> set (ustr ''-_[]()'')) folder_name\<rparr>"



subsection \<open>AIClassifier\<close>







definition ai_learn_from_correction :: "env \<Rightarrow> ustring \<Rightarrow> ustring \<Rightarrow> ustring \<Rightarrow> state \<Rightarrow> state" where
  "ai_learn_from_correction e folder_name correct_classification original_classification s =
     (if original_classification \<noteq> correct_classification then
        (let s1 = s\<lparr>ai_corrections := AList.update folder_name
                      \<lparr>ac_original = original_classification, ac_correct = correct_classification,
                       ac_timestamp = learning_mtime e\<rparr> (ai_corrections s)\<rparr>
         in if correct_classification = ustr ''JAV'' then
              (case extract_jav_pattern folder_name of
                 None \<Rightarrow> s1
               | Some jav_pattern \<Rightarrow>
                   if jav_pattern \<noteq> [] \<and> jav_pattern \<notin> set (ai_jav_patterns s1)
                   then s1\<lparr>ai_jav_patterns := ai_jav_patterns s1 @ [jav_pattern]\<rparr> else s1)
            else s1)
      else s)"

subsection \<open>The correction store\<close>

definition add_manual_correction ::
    "env \<Rightarrow> ustring \<Rightarrow> ustring \<Rightarrow> ustring \<Rightarrow> ustring \<Rightarrow> ustring option \<Rightarrow> state \<Rightarrow> state" where
  "add_manual_correction e folder_name original_classification correct_classification reason
       correct_tmdb_id s =
     (let correction = \<lparr>co_original = original_classification, co_correct = correct_classification,
                        co_reason = reason, co_timestamp = now e, co_applied = Some False,
                        co_correct_tmdb_id = (if truthy correct_tmdb_id then correct_tmdb_id else None)\<rparr>;
          s1 = s\<lparr>corrections := AList.update folder_name correction (corrections s)\<rparr>;
          s2 = s1\<lparr>learning_patterns := learning_patterns s1 @
                     [extract_learning_pattern folder_name original_classification correct_classification]\<rparr>
      in ai_learn_from_correction e folder_name correct_classification original_classification s2)"

definition is_unapplied :: "correction \<Rightarrow> bool" where
  "is_unapplied c = (co_applied c \<noteq> Some True)"

definition get_unapplied_corrections :: "state \<Rightarrow> (ustring \<times> correction) list" where
  "get_unapplied_corrections s = filter (\<lambda>(folder_name, c). is_unapplied c) (corrections s)"

definition mark_correction_applied :: "ustring \<Rightarrow> state \<Rightarrow> state" where
  "mark_correction_applied folder_name s =
     (case map_of (corrections s) folder_name of
        None \<Rightarrow> s
      | Some c \<Rightarrow> s\<lparr>corrections := AList.update folder_name (c\<lparr>co_applied := Some True\<rparr>) (corrections s)\<rparr>)"

section \<open>modules/classifier.py: \<open>classify_folder\<close>\<close>




section \<open>Fixtures for concrete runs\<close>

definition empty_state :: state where
  "empty_state =
     \<lparr>processed_files = [], ai_classifications = [], file_hashes = [], corrections = [],
      learning_patterns = [], openai_client = False, ai_jav_patterns = [], ai_corrections = [],
      confidence_scores = [], trace = []\<rparr>"

definition test_env :: env where
  "test_env =
     \<lparr>now = ustr ''2024-01-01 00:00:00'', get_file_hash = (\<lambda>p. p), learning_mtime = ustr ''0'',
      check_if_jav = (\<lambda>n. None), classify_shows_or_movie = (\<lambda>n. None),
      threshold_var = None, float_of = (\<lambda>t. None)\<rparr>"

section \<open>Real-debrid-Strm/app/real\_debrid\_processor.py\<close>

subsection \<open>\<open>pathlib\<close>: the final component of a POSIX path, its suffix and stem\<close>

fun split_on_acc :: "uchar \<Rightarrow> ustring \<Rightarrow> ustring \<Rightarrow> ustring list" where
  "split_on_acc d w [] = [rev w]"
| "split_on_acc d w (c # cs) = (if c = d then rev w # split_on_acc d [] cs else split_on_acc d (c # w) cs)"

text \<open>\<open>s.split(d)\<close> for a one-character separator: empty pieces are kept.\<close>

definition split_on :: "uchar \<Rightarrow> ustring \<Rightarrow> ustring list" where
  "split_on d s = split_on_acc d [] s"

definition path_name :: "ustring \<Rightarrow> ustring" where
  "path_name p =
     (let parts = filter (\<lambda>c. c \<noteq> [] \<and> c \<noteq> [46]) (split_on 47 p)
      in if parts = [] then [] else last parts)"

text \<open>\<open>name.rfind('.')\<close>: the index of the last dot.\<close>

fun rfind_dot :: "ustring \<Rightarrow> nat option" where
  "rfind_dot [] = None"
| "rfind_dot (c # cs) =
     (case rfind_dot cs of Some i \<Rightarrow> Some (Suc i) | None \<Rightarrow> if c = 46 then Some 0 else None)"

definition path_suffix :: "ustring \<Rightarrow> ustring" where
  "path_suffix p =
     (let name = path_name p in
      case rfind_dot name of
        None \<Rightarrow> []
      | Some i \<Rightarrow> if 0 < i \<and> i < length name - 1 then drop i name else [])"

definition path_stem :: "ustring \<Rightarrow> ustring" where
  "path_stem p =
     (let name = path_name p in
      case rfind_dot name of
        None \<Rightarrow> name
      | Some i \<Rightarrow> if 0 < i \<and> i < length name - 1 then take i name else name)"

subsection \<open>The filter settings of \<open>RealDebridProcessor.__init__\<close>\<close>

record processor =
  min_video_size_mb :: int
  allowed_video_extensions :: "ustring list"
  allowed_subtitle_extensions :: "ustring list"
  allowed_mime_types :: "ustring list"

definition default_processor :: processor where
  "default_processor =
     \<lparr>min_video_size_mb = 300,
      allowed_video_extensions = map ustr [''.mkv'', ''.mp4'', ''.avi'', ''.mov'', ''.wmv'', ''.m4v'', ''.webm'', ''.flv''],
      allowed_subtitle_extensions = map ustr [''.srt'', ''.ass'', ''.vtt'', ''.sub'', ''.idx'', ''.ssa'', ''.smi''],
      allowed_mime_types = map ustr
        [''video/x-matroska'', ''video/mp4'', ''video/x-msvideo'', ''video/quicktime'',
         ''video/x-ms-wmv'', ''video/webm'', ''video/x-flv'', ''application/x-subrip'',
         ''text/vtt'', ''text/plain'']\<rparr>"

subsection \<open>\<open>should_process_file\<close>\<close>

datatype category = Video | Subtitle

datatype verdict = No_filename | Unsupported_extension ustring | Video_too_small | Meets_criteria category

definition process :: "verdict \<Rightarrow> bool" where
  "process v = (case v of Meets_criteria c \<Rightarrow> True | _ \<Rightarrow> False)"

definition file_is_video :: "processor \<Rightarrow> ustring \<Rightarrow> ustring \<Rightarrow> bool" where
  "file_is_video p filename mime_type =
     (lower (path_suffix filename) \<in> set (allowed_video_extensions p)
      \<or> (mime_type \<noteq> [] \<and> contains mime_type (ustr ''video'')))"

definition file_is_subtitle :: "processor \<Rightarrow> ustring \<Rightarrow> ustring \<Rightarrow> bool" where
  "file_is_subtitle p filename mime_type =
     (lower (path_suffix filename) \<in> set (allowed_subtitle_extensions p)
      \<or> (mime_type \<noteq> [] \<and> contains mime_type (ustr ''sub'')))"

definition should_process_file :: "processor \<Rightarrow> ustring \<Rightarrow> int \<Rightarrow> ustring \<Rightarrow> verdict" where
  "should_process_file p filename filesize mime_type =
     (if filename = [] then No_filename
      else
        (let file_ext = lower (path_suffix filename);
             is_video = file_is_video p filename mime_type;
             is_subtitle = file_is_subtitle p filename mime_type
         in if \<not> is_video \<and> \<not> is_subtitle then Unsupported_extension file_ext
            else if is_video \<and> 0 < min_video_size_mb p \<and> filesize < min_video_size_mb p * 1024 * 1024
              then Video_too_small
            else Meets_criteria (if is_video then Video else Subtitle)))"

subsection \<open>\<open>sanitize_folder_name\<close>, \<open>sanitize_filename\<close>, \<open>extract_filename_from_url\<close>\<close>

text \<open>\<open>[<>:"/\\|?*]\<close>, \<open>[\x00-\x1f\x7f-\x9f]\<close>, \<open>\.+$\<close>.\<close>

definition rx_illegal :: rx where
  "rx_illegal = RChar (In [Ch 60, Ch 62, Ch 58, Ch 34, Ch 47, Ch 92, Ch 124, Ch 63, Ch 42])"

definition rx_control :: rx where
  "rx_control = RChar (In [Rg 0 31, Rg 127 159])"

definition rx_trailing_dots :: rx where
  "rx_trailing_dots = RSeq (RRep (One (Ch 46)) 1 None) REol"

definition sanitize_folder_name :: "processor \<Rightarrow> ustring \<Rightarrow> ustring" where
  "sanitize_folder_name p name =
     (if name = [] then ustr ''Unknown''
      else
        (let name1 = (if lower (path_suffix name) \<in> set (allowed_video_extensions p @ allowed_subtitle_extensions p)
                      then path_stem name else name);
             clean1 = re_sub False rx_illegal [95] name1;
             clean2 = re_sub False rx_control [] clean1;
             clean3 = re_sub False rx_trailing_dots [] clean2;
             clean4 = strip clean3
         in if clean4 = [] then ustr ''Unknown'' else clean4))"

text \<open>
  \<open>urllib.parse.unquote\<close> is a parameter \<open>unq\<close> of the functions that call it.  The
  loop \<open>for _ in range(3)\<close> decodes until nothing changes, three times at most.
\<close>

definition decode3 :: "(ustring \<Rightarrow> ustring) \<Rightarrow> ustring \<Rightarrow> ustring" where
  "decode3 unq s =
     (let t1 = unq s in
      if t1 = s then s
      else (let t2 = unq t1 in
            if t2 = t1 then t1
            else (let t3 = unq t2 in if t3 = t2 then t2 else t3)))"

text \<open>The word-by-word truncation loop of \<open>sanitize_filename\<close>.\<close>

fun truncate_words :: "ustring \<Rightarrow> ustring list \<Rightarrow> ustring" where
  "truncate_words truncated [] = truncated"
| "truncate_words truncated (word # words) =
     (if length (truncated @ [32] @ word) \<le> 95
      then truncate_words (if truncated \<noteq> [] then truncated @ [32] @ word else word) words
      else truncated)"

definition rx_extension :: rx where
  "rx_extension = seqs [RChar (One (Ch 46)), RRep (NotIn [Ch 46]) 1 None, REol]"

definition rx_site_prefix :: rx where
  "rx_site_prefix =
     RSeq RBol (RGrp (RAlt (seqs [lits (ustr ''hhd''), rx_digits1, lits (ustr ''.com@'')])
                           (seqs [lits (ustr ''hdd''), rx_digits1, lits (ustr ''.com@'')])))"

definition rx_media_ext :: rx where
  "rx_media_ext =
     RSeq (RGrp (RAlt (lits (ustr ''.mp4'')) (RAlt (lits (ustr ''.mkv'')) (lits (ustr ''.avi''))))) REol"

definition rx_percent :: rx where
  "rx_percent = RSeq (RChar (One (Ch 37))) (RRep (In [Rg 48 57, Rg 65 70, Rg 97 102]) 2 (Some 2))"

definition rx_separators :: rx where
  "rx_separators = RRep (In [Ch 46, Ch 95, Ch 45]) 1 None"

definition rx_spaces :: rx where
  "rx_spaces = RRep (One CatS) 1 None"

definition rx_not_word_space_dash :: rx where
  "rx_not_word_space_dash = RChar (NotIn [CatW, CatS, Ch 45])"

text \<open>The cleaning passes of \<open>sanitize_filename\<close> up to the length check.\<close>

definition clean_passes :: "(ustring \<Rightarrow> ustring) \<Rightarrow> ustring \<Rightarrow> ustring" where
  "clean_passes unq name =
     (let c0 = decode3 unq name;
          c1 = re_sub False rx_extension [] c0;
          c2 = re_sub False rx_site_prefix [] c1;
          c3 = re_sub True rx_media_ext [] c2;
          c4 = re_sub False rx_percent [32] c3;
          c5 = re_sub False rx_illegal [95] c4;
          c6 = re_sub False rx_control [] c5;
          c7 = re_sub False rx_separators [32] c6;
          c8 = re_sub False rx_spaces [32] c7;
          c9 = strip c8
      in re_sub False rx_trailing_dots [] c9)"

definition sanitize_filename :: "(ustring \<Rightarrow> ustring) \<Rightarrow> ustring \<Rightarrow> ustring" where
  "sanitize_filename unq name =
     (if name = [] then ustr ''unknown''
      else
        (let clean_name = clean_passes unq name;
             clean_name1 =
               (if 100 < length clean_name then
                  (let truncated = truncate_words [] (split_ws clean_name)
                   in if truncated \<noteq> [] then truncated else take 95 clean_name)
                else clean_name);
             clean_name2 = strip clean_name1
         in if clean_name2 = [] \<or> length clean_name2 < 3 then
              (let fallback = take 50 (re_sub False rx_not_word_space_dash [] name)
               in if strip fallback \<noteq> [] then strip fallback else ustr ''media_file'')
            else clean_name2))"

definition extract_filename_from_url :: "(ustring \<Rightarrow> ustring) \<Rightarrow> ustring \<Rightarrow> ustring" where
  "extract_filename_from_url unq url =
     (if url = [] then ustr ''unknown''
      else if contains url (ustr ''/d/'') then
        (let parts = split_on 47 url;
             encoded_filename = last parts
         in if encoded_filename \<noteq> [] \<and> encoded_filename \<noteq> last (butlast parts)
            then hd (split_on 35 (hd (split_on 63 (decode3 unq encoded_filename))))
            else ustr ''unknown'')
      else ustr ''unknown'')"

subsection \<open>Torrent grouping\<close>

text \<open>
  The records of the two remote collections, with the keys the grouping reads; a key
  that may be missing is an option.
\<close>

record torrent =
  t_id :: "ustring option"
  t_filename :: "ustring option"

record link_record =
  li_id :: "ustring option"
  li_link :: "ustring option"
  li_torrent_id :: "ustring option"
  li_filename :: "ustring option"
  li_download :: "ustring option"
  li_filesize :: "int option"

record file_entry =
  fe_url :: "ustring option"
  fe_filename :: ustring
  fe_original_filename :: ustring
  fe_filesize :: int

record torrent_group =
  tg_folder_name :: ustring
  tg_files :: "file_entry list"
  tg_torrent_info :: torrent

type_synonym group_state = "(ustring, torrent_group) dict \<times> ustring set"

text \<open>The first loop: the torrents by id, a later one replacing an earlier one.\<close>

definition build_torrent_map :: "torrent list \<Rightarrow> (ustring, torrent) dict" where
  "build_torrent_map torrents =
     fold (\<lambda>t m. if truthy (t_id t) then AList.update (the (t_id t)) t m else m) torrents []"

definition torrent_known :: "(ustring, torrent) dict \<Rightarrow> link_record \<Rightarrow> bool" where
  "torrent_known torrent_map item =
     (truthy (li_torrent_id item) \<and> map_of torrent_map (the (li_torrent_id item)) \<noteq> None)"

definition url_excluded :: "bool \<Rightarrow> ustring set \<Rightarrow> link_record \<Rightarrow> bool" where
  "url_excluded skip_existing existing_urls item =
     (skip_existing \<and> existing_urls \<noteq> {} \<and>
      (case li_link item of None \<Rightarrow> False | Some link \<Rightarrow> link \<in> existing_urls))"

definition item_original_filename :: "(ustring \<Rightarrow> ustring) \<Rightarrow> link_record \<Rightarrow> ustring" where
  "item_original_filename unq item =
     (if truthy (li_filename item) then the (li_filename item)
      else extract_filename_from_url unq (case li_download item of None \<Rightarrow> [] | Some d \<Rightarrow> d))"

definition item_filesize :: "link_record \<Rightarrow> int" where
  "item_filesize item = (case li_filesize item of None \<Rightarrow> 0 | Some n \<Rightarrow> n)"

definition passes_filter :: "processor \<Rightarrow> (ustring \<Rightarrow> ustring) \<Rightarrow> link_record \<Rightarrow> bool" where
  "passes_filter p unq item =
     process (should_process_file p (item_original_filename unq item) (item_filesize item) [])"

text \<open>The part of the loop body behind the tests: the file is appended to its group.\<close>

definition add_file ::
    "processor \<Rightarrow> (ustring \<Rightarrow> ustring) \<Rightarrow> (ustring, torrent) dict \<Rightarrow> link_record \<Rightarrow> group_state \<Rightarrow> group_state" where
  "add_file p unq torrent_map item st =
     (let original_filename = item_original_filename unq item;
          torrent_info = the (map_of torrent_map (the (li_torrent_id item)));
          group_name = sanitize_folder_name p
                         (case t_filename torrent_info of None \<Rightarrow> original_filename | Some f \<Rightarrow> f);
          groups0 = fst st;
          groups1 = (if map_of groups0 group_name = None
                     then AList.update group_name
                            \<lparr>tg_folder_name = group_name, tg_files = [], tg_torrent_info = torrent_info\<rparr> groups0
                     else groups0);
          g = the (map_of groups1 group_name);
          entry = \<lparr>fe_url = li_download item, fe_filename = sanitize_filename unq original_filename,
                   fe_original_filename = original_filename, fe_filesize = item_filesize item\<rparr>
      in (AList.update group_name (g\<lparr>tg_files := tg_files g @ [entry]\<rparr>) groups1,
          insert (the (li_link item)) (snd st)))"

text \<open>The loop body of \<open>_create_torrent_groups_with_skip\<close>.\<close>

definition group_step_with_skip ::
    "processor \<Rightarrow> (ustring \<Rightarrow> ustring) \<Rightarrow> (ustring, torrent) dict \<Rightarrow> bool \<Rightarrow> ustring set \<Rightarrow>
     link_record \<Rightarrow> group_state \<Rightarrow> group_state" where
  "group_step_with_skip p unq torrent_map skip_existing existing_urls item st =
     (if \<not> torrent_known torrent_map item then st
      else if url_excluded skip_existing existing_urls item then st
      else if truthy (li_link item) \<and> the (li_link item) \<notin> snd st then
        (if \<not> passes_filter p unq item then st else add_file p unq torrent_map item st)
      else st)"

definition create_torrent_groups_with_skip ::
    "processor \<Rightarrow> (ustring \<Rightarrow> ustring) \<Rightarrow> torrent list \<Rightarrow> link_record list \<Rightarrow> bool \<Rightarrow> ustring set \<Rightarrow>
     (ustring, torrent_group) dict" where
  "create_torrent_groups_with_skip p unq torrents unrestricted_data skip_existing existing_urls =
     fst (fold (group_step_with_skip p unq (build_torrent_map torrents) skip_existing existing_urls)
            unrestricted_data ([], {}))"

text \<open>The loop body of \<open>_create_torrent_groups\<close>: the same without the exclusion test.\<close>

definition group_step ::
    "processor \<Rightarrow> (ustring \<Rightarrow> ustring) \<Rightarrow> (ustring, torrent) dict \<Rightarrow> link_record \<Rightarrow> group_state \<Rightarrow> group_state" where
  "group_step p unq torrent_map item st =
     (if \<not> torrent_known torrent_map item then st
      else if truthy (li_link item) \<and> the (li_link item) \<notin> snd st then
        (if \<not> passes_filter p unq item then st else add_file p unq torrent_map item st)
      else st)"

definition create_torrent_groups ::
    "processor \<Rightarrow> (ustring \<Rightarrow> ustring) \<Rightarrow> torrent list \<Rightarrow> link_record list \<Rightarrow> (ustring, torrent_group) dict" where
  "create_torrent_groups p unq torrents unrestricted_data =
     fst (fold (group_step p unq (build_torrent_map torrents)) unrestricted_data ([], {}))"

text \<open>The tests of the loop body together: the record can contribute a file.\<close>

definition eligible ::
    "processor \<Rightarrow> (ustring \<Rightarrow> ustring) \<Rightarrow> (ustring, torrent) dict \<Rightarrow> bool \<Rightarrow> ustring set \<Rightarrow> link_record \<Rightarrow> bool" where
  "eligible p unq torrent_map skip_existing existing_urls item =
     (torrent_known torrent_map item \<and> \<not> url_excluded skip_existing existing_urls item
      \<and> truthy (li_link item) \<and> passes_filter p unq item)"

text \<open>\<open>sum(len(group['files']) for group in torrent_groups.values())\<close>.\<close>

definition total_files :: "(ustring, torrent_group) dict \<Rightarrow> nat" where
  "total_files torrent_groups = sum_list (map (\<lambda>(k, g). length (tg_files g)) torrent_groups)"



definition sample_torrents :: "torrent list" where
  "sample_torrents = [\<lparr>t_id = Some (ustr ''T1''), t_filename = Some (ustr ''My Show'')\<rparr>]"

definition sample_links :: "link_record list" where
  "sample_links =
     [\<lparr>li_id = None, li_link = Some (ustr ''L1''), li_torrent_id = Some (ustr ''T1''),
       li_filename = Some (ustr ''a.srt''), li_download = Some (ustr ''D1''), li_filesize = None\<rparr>,
      \<lparr>li_id = None, li_link = Some (ustr ''L1''), li_torrent_id = Some (ustr ''T1''),
       li_filename = Some (ustr ''b.srt''), li_download = Some (ustr ''D2''), li_filesize = None\<rparr>,
      \<lparr>li_id = None, li_link = Some (ustr ''L2''), li_torrent_id = Some (ustr ''T9''),
       li_filename = Some (ustr ''c.srt''), li_download = Some (ustr ''D3''), li_filesize = None\<rparr>]"

section \<open>The markers of the specification\<close>



section \<open>modules/correction\_processor.py: \<open>apply_metadata_correction\<close>\<close>

subsection \<open>\<open>clean_filename\<close> (modules/processors.py) and \<open>os.path\<close>\<close>




subsection \<open>The collaborators\<close>






subsection \<open>The \<open>try\<close> block\<close>






subsection \<open>The function\<close>


subsection \<open>A small file system for concrete runs\<close>










section \<open>The correction lifecycle\<close>

lemma unapplied_update_False:
  "co_applied c = Some False \<Longrightarrow> (k, c) \<in> set (filter (\<lambda>(n, c). is_unapplied c) (AList.update k c d))"
  by (induction d) (auto simp: is_unapplied_def)

lemma unapplied_update_True:
  "distinct (map fst d) \<Longrightarrow> co_applied c = Some True \<Longrightarrow>
     k \<notin> fst ` set (filter (\<lambda>(n, c). is_unapplied c) (AList.update k c d))"
  by (induction d) (auto simp: is_unapplied_def image_iff)

lemma mark_idem: "mark_correction_applied n (mark_correction_applied n t) = mark_correction_applied n t"
  by (cases "map_of (corrections t) n") (simp_all add: mark_correction_applied_def update_conv')

lemma corrections_ai_learn: "corrections (ai_learn_from_correction e n c o' s) = corrections s"
  by (simp add: ai_learn_from_correction_def Let_def split: option.splits)

lemma corrections_add:
  "corrections (add_manual_correction e n o' c r t s) =
     AList.update n \<lparr>co_original = o', co_correct = c, co_reason = r, co_timestamp = now e,
        co_applied = Some False, co_correct_tmdb_id = (if truthy t then t else None)\<rparr> (corrections s)"
  by (simp add: add_manual_correction_def Let_def corrections_ai_learn)

text \<open>
  C6.  In a correction store with one record per name (a dictionary), after
  \<open>add_manual_correction\<close> for a name the list of unapplied corrections holds a record
  for that name with \<open>applied = False\<close>; after \<open>mark_correction_applied\<close> the list
  holds no record for the name; marking a second time returns the same state.
\<close>

theorem correction_lifecycle:
  assumes "distinct (map fst (corrections s))"
  shows "(\<exists>c. (name, c) \<in> set (get_unapplied_corrections
                 (add_manual_correction e name original correct reason tmdb_id s))
              \<and> co_applied c = Some False)
       \<and> name \<notin> fst ` set (get_unapplied_corrections
            (mark_correction_applied name (add_manual_correction e name original correct reason tmdb_id s)))
       \<and> mark_correction_applied name
            (mark_correction_applied name (add_manual_correction e name original correct reason tmdb_id s))
          = mark_correction_applied name (add_manual_correction e name original correct reason tmdb_id s)"
proof -
  let ?s1 = "add_manual_correction e name original correct reason tmdb_id s"
  let ?c = "\<lparr>co_original = original, co_correct = correct, co_reason = reason, co_timestamp = now e,
        co_applied = Some False, co_correct_tmdb_id = (if truthy tmdb_id then tmdb_id else None)\<rparr>"
  have c1: "corrections ?s1 = AList.update name ?c (corrections s)" by (rule corrections_add)
  have d1: "distinct (map fst (corrections ?s1))" using assms by (simp add: c1 distinct_update)
  have a: "(name, ?c) \<in> set (get_unapplied_corrections ?s1)"
    unfolding get_unapplied_corrections_def c1 by (rule unapplied_update_False) simp
  have look: "map_of (corrections ?s1) name = Some ?c" by (simp add: c1 update_conv')
  have c2: "corrections (mark_correction_applied name ?s1)
      = AList.update name (?c\<lparr>co_applied := Some True\<rparr>) (corrections ?s1)"
    by (simp add: mark_correction_applied_def look)
  have b: "name \<notin> fst ` set (get_unapplied_corrections (mark_correction_applied name ?s1))"
    unfolding get_unapplied_corrections_def c2 by (rule unapplied_update_True[OF d1]) simp
  show ?thesis using a b mark_idem by fastforce
qed

theorem correction_lifecycle_witness:
  "distinct (map fst (corrections empty_state))
   \<and> (\<exists>c. (ustr ''ab'', c) \<in> set (get_unapplied_corrections
                 (add_manual_correction test_env (ustr ''ab'') (ustr ''Movie'') (ustr ''Shows'') [] None empty_state))
              \<and> co_applied c = Some False)
   \<and> ustr ''ab'' \<notin> fst ` set (get_unapplied_corrections
            (mark_correction_applied (ustr ''ab'')
               (add_manual_correction test_env (ustr ''ab'') (ustr ''Movie'') (ustr ''Shows'') [] None empty_state)))"
proof -
  have d: "distinct (map fst (corrections empty_state))" by (simp add: empty_state_def)
  show ?thesis
    using d correction_lifecycle[OF d, of "ustr ''ab''" test_env "ustr ''Movie''" "ustr ''Shows''" "[]" None]
    by blast
qed

lemmas ev_chars = ustr_def is_digit_def is_upper_def is_lower_def is_alpha_def is_word_def is_space_def
  to_lower_def to_upper_def lower_def upper_def lstrip_def rstrip_def strip_def endswith_def
  split_ws_def replace_char_def atom_match_def at_word_boundary_def
lemmas ev_re = re_search_def re_found_def groups_def re_sub_def Let_def
lemmas ev_path = split_on_def path_name_def path_suffix_def path_stem_def
lemmas ev_proc = default_processor_def process_def file_is_video_def file_is_subtitle_def should_process_file_def
  rx_illegal_def rx_control_def rx_trailing_dots_def decode3_def rx_extension_def rx_site_prefix_def
  rx_media_ext_def rx_percent_def rx_separators_def rx_spaces_def rx_not_word_space_dash_def rx_digits1_def
  clean_passes_def sanitize_filename_def sanitize_folder_name_def


section \<open>The content filter\<close>

text \<open>
  C8 (as amended).  For a size that is not negative, \<open>should_process_file\<close> accepts a
  file exactly when it has a name, its extension is an allowed video or subtitle extension
  or its declared media type contains the text \<open>video\<close> or \<open>sub\<close>, and it is not a
  video smaller than the configured minimum of megabytes; the default minimum is 300.
\<close>

theorem content_filter_policy:
  assumes "0 \<le> filesize"
  shows "(process (should_process_file p filename filesize mime_type) \<longleftrightarrow>
            filename \<noteq> []
            \<and> (file_is_video p filename mime_type \<or> file_is_subtitle p filename mime_type)
            \<and> \<not> (file_is_video p filename mime_type \<and> filesize < min_video_size_mb p * 1024 * 1024))
         \<and> min_video_size_mb default_processor = 300"
  using assms
  by (auto simp: should_process_file_def process_def Let_def default_processor_def)

section \<open>\<open>sanitize_filename\<close>\<close>





text \<open>
  The claim as stated asks for a known media type.  A file \<open>a.bin\<close> that declares the
  media type \<open>subway\<close> is accepted: its extension is in neither list and its media type
  is not in \<open>allowed_mime_types\<close>, which the filter never consults.
\<close>

lemma suffix_a_bin: "lower (path_suffix (ustr ''a.bin'')) = ustr ''.bin''" by (simp add: ev_chars ev_re ev_path ev_proc)
lemma suffix_a_srt: "lower (path_suffix (ustr ''a.srt'')) = ustr ''.srt''" by (simp add: ev_chars ev_re ev_path ev_proc)
lemma suffix_a_mkv: "lower (path_suffix (ustr ''a.mkv'')) = ustr ''.mkv''" by (simp add: ev_chars ev_re ev_path ev_proc)

theorem content_filter_counterexample:
  "process (should_process_file default_processor (ustr ''a.bin'') 0 (ustr ''subway''))
   \<and> lower (path_suffix (ustr ''a.bin'')) \<notin> set (allowed_video_extensions default_processor @ allowed_subtitle_extensions default_processor)
   \<and> ustr ''subway'' \<notin> set (allowed_mime_types default_processor)"
  by (simp add: ev_chars ev_re ev_path ev_proc)

theorem content_filter_policy_witness:
  "(0::int) \<le> 5 \<and> \<not> process (should_process_file default_processor (ustr ''a.mkv'') 5 [])
   \<and> file_is_video default_processor (ustr ''a.mkv'') []"
proof -
  have v: "file_is_video default_processor (ustr ''a.mkv'') []" by (simp add: ev_chars ev_re ev_path ev_proc)
  have h: "(0::int) \<le> 5" by simp
  show ?thesis
    using v content_filter_policy[OF h, of default_processor "ustr ''a.mkv''" "[]"]
    by (simp add: default_processor_def)
qed

text \<open>
  A subtitle extension does not always win: a file \<open>a.srt\<close> of size 0 that declares
  the media type \<open>video/mp4\<close> counts as a video and is rejected as too small.
\<close>

theorem subtitle_video_filter_counterexample:
  "lower (path_suffix (ustr ''a.srt'')) \<in> set (allowed_subtitle_extensions default_processor)
   \<and> should_process_file default_processor (ustr ''a.srt'') 0 (ustr ''video/mp4'') = Video_too_small"
  by (simp add: ev_chars ev_re ev_path ev_proc)

text \<open>
  C10 (as amended).  A named file with an allowed subtitle extension that is not a video
  (neither by extension nor by declared media type, as in every call the grouping
  makes) is accepted whatever its size.  A file with an allowed video extension and size 0
  is rejected whenever the configured minimum is positive; a link record without a size
  has size 0, and such a record with a video extension leaves the grouping state
  unchanged.
\<close>

theorem subtitle_video_filter:
  "(filename \<noteq> [] \<and> lower (path_suffix filename) \<in> set (allowed_subtitle_extensions p)
      \<and> \<not> file_is_video p filename mime_type
      \<longrightarrow> process (should_process_file p filename filesize mime_type))
   \<and> (lower (path_suffix filename) \<in> set (allowed_video_extensions p) \<and> 0 < min_video_size_mb p
      \<longrightarrow> \<not> process (should_process_file p filename 0 mime_type))
   \<and> (li_filesize item = None \<longrightarrow> item_filesize item = 0)
   \<and> (lower (path_suffix (item_original_filename unq item)) \<in> set (allowed_video_extensions p)
        \<and> 0 < min_video_size_mb p \<and> (li_filesize item = None \<or> li_filesize item = Some 0)
      \<longrightarrow> group_step p unq torrent_map item st = st
          \<and> group_step_with_skip p unq torrent_map skip_existing existing_urls item st = st)"
  by (auto simp: should_process_file_def process_def Let_def file_is_video_def file_is_subtitle_def
        item_filesize_def group_step_def group_step_with_skip_def passes_filter_def)

theorem subtitle_video_filter_witness:
  "process (should_process_file default_processor (ustr ''a.srt'') 0 [])
   \<and> \<not> process (should_process_file default_processor (ustr ''a.mkv'') 0 [])"
proof -
  have s: "lower (path_suffix (ustr ''a.srt'')) \<in> set (allowed_subtitle_extensions default_processor)"
    by (simp add: ev_chars ev_re ev_path ev_proc)
  have nv: "\<not> file_is_video default_processor (ustr ''a.srt'') []" by (simp add: ev_chars ev_re ev_path ev_proc)
  have v: "lower (path_suffix (ustr ''a.mkv'')) \<in> set (allowed_video_extensions default_processor)"
    by (simp add: ev_chars ev_re ev_path ev_proc)
  have m: "0 < min_video_size_mb default_processor" by (simp add: default_processor_def)
  have ne: "ustr ''a.srt'' \<noteq> []" by (simp add: ustr_def)
  show ?thesis
    using s nv v m ne
      subtitle_video_filter[of "ustr ''a.srt''" default_processor "[]" 0]
      subtitle_video_filter[of "ustr ''a.mkv''" default_processor "[]" 0]
    by blast
qed



section \<open>The classification pipeline\<close>










subsection \<open>Concrete runs\<close>






section \<open>Torrent grouping\<close>

lemma total_files_update_new:
  "map_of d k = None \<Longrightarrow> total_files (AList.update k v d) = total_files d + length (tg_files v)"
  by (induction d) (auto simp: total_files_def split: if_splits)

lemma total_files_update_old:
  "map_of d k = Some g \<Longrightarrow>
     total_files (AList.update k v d) + length (tg_files g) = total_files d + length (tg_files v)"
  by (induction d) (auto simp: total_files_def split: if_splits)

lemma total_files_add_entry:
  "map_of d k = Some g \<Longrightarrow>
     total_files (AList.update k (g\<lparr>tg_files := tg_files g @ [e]\<rparr>) d) = Suc (total_files d)"
  by (induction d) (auto simp: total_files_def split: if_splits)

lemma total_files_add_file:
  "total_files (fst (add_file p unq tm item st)) = Suc (total_files (fst st))"
proof -
  define gn where "gn = sanitize_folder_name p
     (case t_filename (the (map_of tm (the (li_torrent_id item)))) of
        None \<Rightarrow> item_original_filename unq item | Some f \<Rightarrow> f)"
  define ti where "ti = the (map_of tm (the (li_torrent_id item)))"
  define new where "new = \<lparr>tg_folder_name = gn, tg_files = [], tg_torrent_info = ti\<rparr>"
  define g1 where "g1 = (if map_of (fst st) gn = None then AList.update gn new (fst st) else fst st)"
  define en where "en = \<lparr>fe_url = li_download item,
      fe_filename = sanitize_filename unq (item_original_filename unq item),
      fe_original_filename = item_original_filename unq item, fe_filesize = item_filesize item\<rparr>"
  have r: "fst (add_file p unq tm item st)
      = AList.update gn ((the (map_of g1 gn))\<lparr>tg_files := tg_files (the (map_of g1 gn)) @ [en]\<rparr>) g1"
    unfolding add_file_def Let_def gn_def ti_def new_def g1_def en_def by simp
  have t1: "total_files g1 = total_files (fst st)"
    by (simp add: g1_def new_def total_files_update_new)
  have "map_of g1 gn \<noteq> None" by (auto simp: g1_def update_conv')
  then obtain g where g: "map_of g1 gn = Some g" by blast
  show ?thesis unfolding r using total_files_add_entry[OF g] t1 g by simp
qed

lemma links_add_file: "snd (add_file p unq tm item st) = insert (the (li_link item)) (snd st)"
  by (simp add: add_file_def Let_def)

lemma step_cases:
  "group_step_with_skip p unq tm sk ex i st =
     (if eligible p unq tm sk ex i \<and> the (li_link i) \<notin> snd st then add_file p unq tm i st else st)"
  by (auto simp: group_step_with_skip_def eligible_def)

lemma fold_invariant:
  "finite (snd st) \<Longrightarrow>
   snd (fold (group_step_with_skip p unq tm sk ex) items st)
     = snd st \<union> (\<lambda>i. the (li_link i)) ` {i \<in> set items. eligible p unq tm sk ex i}
   \<and> total_files (fst (fold (group_step_with_skip p unq tm sk ex) items st)) + card (snd st)
     = total_files (fst st) + card (snd (fold (group_step_with_skip p unq tm sk ex) items st))"
proof (induction items arbitrary: st)
  case Nil
  then show ?case by simp
next
  case (Cons i items)
  let ?st1 = "group_step_with_skip p unq tm sk ex i st"
  have f1: "finite (snd ?st1)" using Cons.prems by (simp add: step_cases links_add_file)
  have s1: "snd ?st1 = snd st \<union> (if eligible p unq tm sk ex i then {the (li_link i)} else {})"
    by (auto simp: step_cases links_add_file)
  have c1: "total_files (fst ?st1) + card (snd st) = total_files (fst st) + card (snd ?st1)"
    using Cons.prems by (auto simp: step_cases links_add_file total_files_add_file)
  from Cons.IH[OF f1] have
      a: "snd (fold (group_step_with_skip p unq tm sk ex) items ?st1)
          = snd ?st1 \<union> (\<lambda>i. the (li_link i)) ` {i \<in> set items. eligible p unq tm sk ex i}"
    and b: "total_files (fst (fold (group_step_with_skip p unq tm sk ex) items ?st1)) + card (snd ?st1)
          = total_files (fst ?st1) + card (snd (fold (group_step_with_skip p unq tm sk ex) items ?st1))"
    by simp_all
  have "snd (fold (group_step_with_skip p unq tm sk ex) (i # items) st)
      = snd st \<union> (\<lambda>i. the (li_link i)) ` {j \<in> set (i # items). eligible p unq tm sk ex j}"
    unfolding fold_simps a s1 by auto
  moreover have "total_files (fst (fold (group_step_with_skip p unq tm sk ex) (i # items) st)) + card (snd st)
     = total_files (fst st) + card (snd (fold (group_step_with_skip p unq tm sk ex) (i # items) st))"
    using b c1 by simp
  ultimately show ?case by blast
qed

lemma step_no_skip: "group_step p unq tm = group_step_with_skip p unq tm False {}"
  by (intro ext) (simp add: group_step_def group_step_with_skip_def url_excluded_def)

lemma fold_filter_known:
  "fold (group_step_with_skip p unq tm sk ex) (filter (torrent_known tm) items) st
     = fold (group_step_with_skip p unq tm sk ex) items st"
  by (induction items arbitrary: st) (simp_all add: group_step_with_skip_def)

text \<open>
  C7.  In both grouping functions the number of file entries over all groups is the
  number of distinct link values among the records that can contribute (known torrent id,
  non-empty link, not excluded, accepted by the filter): records that share a link
  value contribute one entry together.  Removing the records whose torrent id is missing
  or not in the torrent index changes nothing: they contribute no entry.
\<close>

theorem grouping_one_entry_per_link:
  "total_files (create_torrent_groups_with_skip p unq torrents items skip_existing existing_urls)
     = card ((\<lambda>i. the (li_link i)) `
         {i \<in> set items. torrent_known (build_torrent_map torrents) i
            \<and> \<not> url_excluded skip_existing existing_urls i \<and> truthy (li_link i) \<and> passes_filter p unq i})
   \<and> total_files (create_torrent_groups p unq torrents items)
     = card ((\<lambda>i. the (li_link i)) `
         {i \<in> set items. torrent_known (build_torrent_map torrents) i
            \<and> truthy (li_link i) \<and> passes_filter p unq i})
   \<and> create_torrent_groups_with_skip p unq torrents
         (filter (torrent_known (build_torrent_map torrents)) items) skip_existing existing_urls
       = create_torrent_groups_with_skip p unq torrents items skip_existing existing_urls
   \<and> create_torrent_groups p unq torrents (filter (torrent_known (build_torrent_map torrents)) items)
       = create_torrent_groups p unq torrents items"
proof -
  have inv: "\<And>sk ex. total_files (fst (fold (group_step_with_skip p unq (build_torrent_map torrents) sk ex) items ([], {})))
      = card ((\<lambda>i. the (li_link i)) ` {i \<in> set items. eligible p unq (build_torrent_map torrents) sk ex i})"
  proof -
    fix sk ex
    show "total_files (fst (fold (group_step_with_skip p unq (build_torrent_map torrents) sk ex) items ([], {})))
      = card ((\<lambda>i. the (li_link i)) ` {i \<in> set items. eligible p unq (build_torrent_map torrents) sk ex i})"
      using fold_invariant[of "([], {})" p unq "build_torrent_map torrents" sk ex items]
      by (simp add: total_files_def)
  qed
  have e0: "\<And>i. eligible p unq (build_torrent_map torrents) False {} i
      = (torrent_known (build_torrent_map torrents) i \<and> truthy (li_link i) \<and> passes_filter p unq i)"
    by (simp add: eligible_def url_excluded_def)
  show ?thesis
    using inv[of skip_existing existing_urls] inv[of False "{}"]
    by (simp add: create_torrent_groups_with_skip_def create_torrent_groups_def step_no_skip
          fold_filter_known eligible_def e0 url_excluded_def)
qed

theorem grouping_one_entry_per_link_witness:
  "total_files (create_torrent_groups default_processor (\<lambda>s. s) sample_torrents sample_links) = 1
   \<and> length sample_links = 3"
proof -
  let ?tm = "build_torrent_map sample_torrents"
  let ?P = "\<lambda>i. torrent_known ?tm i \<and> truthy (li_link i) \<and> passes_filter default_processor (\<lambda>s. s) i"
  have tm: "?tm = [(ustr ''T1'', \<lparr>t_id = Some (ustr ''T1''), t_filename = Some (ustr ''My Show'')\<rparr>)]"
    by (simp add: build_torrent_map_def sample_torrents_def ustr_def)
  have f: "filter ?P sample_links = take 2 sample_links"
    unfolding tm
    by (simp add: sample_links_def torrent_known_def passes_filter_def item_original_filename_def
          item_filesize_def ev_chars ev_path ev_proc)
  have s: "{i \<in> set sample_links. ?P i} = set (filter ?P sample_links)" by auto
  have c: "card ((\<lambda>i. the (li_link i)) ` {i \<in> set sample_links. ?P i}) = 1"
    unfolding s f by (simp add: sample_links_def)
  have "total_files (create_torrent_groups default_processor (\<lambda>s. s) sample_torrents sample_links) = 1"
    using grouping_one_entry_per_link[of default_processor "\<lambda>s. s" sample_torrents sample_links False "{}"] c
    by simp
  then show ?thesis by (simp add: sample_links_def)
qed

section \<open>Names with episode markers and with studio codes\<close>

subsection \<open>Where a pattern matches\<close>

lemma in_rmatch_char:
  "cls_match ic cl c \<Longrightarrow> (c # l, r, g) \<in> set (rmatch ic (RChar cl) (l, c # r, g))"
  by simp











subsection \<open>Episode markers\<close>







subsection \<open>Studio codes\<close>






section \<open>Metadata corrections\<close>







end
